theory Spec2Isabelle
  imports Main "HOL-Library.Word" "HOL-Library.Code_Target_Nat"
begin

unbundle bit_operations_syntax

section \<open>JavaScript values\<close>

text \<open>
  A JavaScript string is a sequence of UTF-16 code units: \<open>str.length\<close>, \<open>substring\<close> and a
  regular expression without the \<open>u\<close> flag all count code units. A \<open>Buffer\<close> is a sequence of
  bytes. \<open>lit\<close> writes an ASCII literal of the source as code units.
\<close>

type_synonym code_unit = "16 word"
type_synonym jsstring = "code_unit list"
type_synonym bytes = "8 word list"

definition lit :: "string \<Rightarrow> jsstring" where
  "lit s = map (\<lambda>c. of_nat (of_char c)) s"

text \<open>What a \<open>throw\<close> carries: \<open>new Error(msg)\<close>, a \<open>TypeError\<close> of the runtime, or whatever
  the Signal library throws.\<close>

datatype js_error = Error jsstring | TypeError jsstring | LibraryError jsstring

text \<open>The numbers of the source are integers or \<open>NaN\<close> (from \<open>parseInt\<close>).\<close>

datatype js_number = NaN | Num int

fun digits :: "nat \<Rightarrow> jsstring" where
  "digits n = (if n < 10 then [of_nat (48 + n)] else digits (n div 10) @ [of_nat (48 + n mod 10)])"

declare digits.simps [simp del]

definition number_toString :: "js_number \<Rightarrow> jsstring" where
  "number_toString x =
     (case x of
        NaN \<Rightarrow> lit ''NaN''
      | Num i \<Rightarrow> if i < 0 then lit ''-'' @ digits (nat (- i)) else digits (nat i))"

text \<open>White space and line terminators, as \<open>String.prototype.trim\<close> and \<open>parseInt\<close> skip them.\<close>

definition is_js_whitespace :: "code_unit \<Rightarrow> bool" where
  "is_js_whitespace c =
     (c \<in> set [0x9, 0xA, 0xB, 0xC, 0xD, 0x20, 0xA0, 0x1680, 0x2028, 0x2029, 0x202F, 0x205F,
                0x3000, 0xFEFF]
      \<or> (0x2000 \<le> c \<and> c \<le> 0x200A))"

definition trim :: "jsstring \<Rightarrow> jsstring" where
  "trim s = rev (dropWhile is_js_whitespace (rev (dropWhile is_js_whitespace s)))"

definition digit_value :: "code_unit \<Rightarrow> nat option" where
  "digit_value c =
     (if 0x30 \<le> c \<and> c \<le> 0x39 then Some (unat c - 48)
      else if 0x41 \<le> c \<and> c \<le> 0x5A then Some (unat c - 55)
      else if 0x61 \<le> c \<and> c \<le> 0x7A then Some (unat c - 87)
      else None)"

definition is_digit_of :: "nat \<Rightarrow> code_unit \<Rightarrow> bool" where
  "is_digit_of radix c = (case digit_value c of None \<Rightarrow> False | Some d \<Rightarrow> d < radix)"

text \<open>\<open>parseInt(s, radix)\<close> for radix 10 and 16: skip leading white space, read a sign, for
  radix 16 skip a \<open>0x\<close> prefix, then read digits as far as they go; no digit gives \<open>NaN\<close>.\<close>

definition parseInt :: "jsstring \<Rightarrow> nat \<Rightarrow> js_number" where
  "parseInt s radix =
     (let S = dropWhile is_js_whitespace s;
          sign = (case S of c # _ \<Rightarrow> if c = 0x2D then - 1 else (1 :: int) | [] \<Rightarrow> 1);
          S = (case S of c # r \<Rightarrow> if c = 0x2D \<or> c = 0x2B then r else S | [] \<Rightarrow> S);
          S = (case S of
                 a # b # r \<Rightarrow> if radix = 16 \<and> a = 0x30 \<and> (b = 0x78 \<or> b = 0x58) then r else S
               | _ \<Rightarrow> S);
          Z = takeWhile (is_digit_of radix) S
      in if Z = [] then NaN
         else Num (sign * int (foldl (\<lambda>n c. radix * n + the (digit_value c)) 0 Z)))"

text \<open>The \<open>%\<close> of JavaScript takes the sign of the dividend.\<close>

definition js_rem :: "js_number \<Rightarrow> int \<Rightarrow> js_number" where
  "js_rem x m = (case x of NaN \<Rightarrow> NaN | Num i \<Rightarrow> Num (sgn i * (\<bar>i\<bar> mod m)))"

definition js_add :: "js_number \<Rightarrow> int \<Rightarrow> js_number" where
  "js_add x k = (case x of NaN \<Rightarrow> NaN | Num i \<Rightarrow> Num (i + k))"

text \<open>\<open>!s\<close> for a value that is a string or \<open>null\<close>: absent and empty are both falsy.\<close>

definition truthy :: "jsstring option \<Rightarrow> bool" where
  "truthy v = (case v of None \<Rightarrow> False | Some s \<Rightarrow> s \<noteq> [])"

section \<open>The platform: the Signal library and \<open>Buffer\<close>\<close>

text \<open>
  \<open>lib/signal.ts\<close> calls the Signal library (\<open>@signalapp/libsignal-client\<close>, loaded by
  \<open>loadSignal\<close>), the runtime's \<open>Buffer\<close> and \<open>crypto.createHash\<close>. None of them is part of
  the repository, so the model takes them as a parameter \<open>env\<close>. Every theorem below that
  mentions \<open>env\<close> holds for every library and runtime.

  A key or message object of the library is written as the bytes it serialises to; the
  library's \<open>deserialize\<close> decides which bytes are accepted. The operations that read and
  write sessions get the local user id and the secure store and return the store as they
  leave it, also when they throw. A value of \<open>env\<close> stands for the library together with the
  random choices it makes.
\<close>

datatype PublicKey = PublicKey (pk_serialize: bytes)
datatype PrivateKey = PrivateKey (sk_serialize: bytes)
datatype PreKeySignalMessage = PreKeySignalMessage bytes
datatype SignalMessage = SignalMessage bytes

record IdentityKeyPair =
  kp_publicKey :: PublicKey
  kp_privateKey :: PrivateKey

record SignedPreKeyRecord =
  spkr_id :: nat
  spkr_timestamp :: nat
  spkr_keyPair :: IdentityKeyPair
  spkr_signature :: bytes

record PreKeyRecord =
  pkr_id :: nat
  pkr_keyPair :: IdentityKeyPair

record ProtocolAddress =
  addr_name :: jsstring
  addr_deviceId :: nat

record PreKeyBundle =
  pkb_registrationId :: js_number
  pkb_deviceId :: nat
  pkb_preKeyId :: nat
  pkb_preKey :: PublicKey
  pkb_signedPreKeyId :: nat
  pkb_signedPreKey :: PublicKey
  pkb_signature :: bytes
  pkb_identityKey :: PublicKey

text \<open>The secure store (\<open>expo-secure-store\<close>): string keys to string values; a key never
  written reads as \<open>null\<close>.\<close>

type_synonym secure_store = "jsstring \<rightharpoonup> jsstring"

record env =
  base64_encode :: "bytes \<Rightarrow> jsstring"
  base64_decode :: "jsstring \<Rightarrow> bytes"
  utf8_encode :: "jsstring \<Rightarrow> bytes"
  utf8_decode :: "bytes \<Rightarrow> jsstring"
  sha256_hex :: "bytes \<Rightarrow> jsstring"
  PublicKey_deserialize :: "bytes \<Rightarrow> js_error + PublicKey"
  PrivateKey_deserialize :: "bytes \<Rightarrow> js_error + PrivateKey"
  private_sign :: "PrivateKey \<Rightarrow> bytes \<Rightarrow> bytes"
  SignedPreKeyRecord_serialize :: "SignedPreKeyRecord \<Rightarrow> bytes"
  SignedPreKeyRecord_deserialize :: "bytes \<Rightarrow> js_error + SignedPreKeyRecord"
  PreKeyRecord_serialize :: "PreKeyRecord \<Rightarrow> bytes"
  PreKeyRecord_deserialize :: "bytes \<Rightarrow> js_error + PreKeyRecord"
  processPreKeyBundle ::
    "jsstring \<Rightarrow> secure_store \<Rightarrow> ProtocolAddress \<Rightarrow> PreKeyBundle \<Rightarrow> (js_error + unit) \<times> secure_store"
  cipher_encrypt ::
    "jsstring \<Rightarrow> secure_store \<Rightarrow> ProtocolAddress \<Rightarrow> bytes \<Rightarrow> (js_error + bytes) \<times> secure_store"
  PreKeySignalMessage_deserialize :: "bytes \<Rightarrow> js_error + PreKeySignalMessage"
  SignalMessage_deserialize :: "bytes \<Rightarrow> js_error + SignalMessage"
  decryptPreKeySignalMessage ::
    "jsstring \<Rightarrow> secure_store \<Rightarrow> ProtocolAddress \<Rightarrow> PreKeySignalMessage
       \<Rightarrow> (js_error + bytes) \<times> secure_store"
  decryptSignalMessage ::
    "jsstring \<Rightarrow> secure_store \<Rightarrow> ProtocolAddress \<Rightarrow> SignalMessage
       \<Rightarrow> (js_error + bytes) \<times> secure_store"

section \<open>\<open>lib/signal.ts\<close>: \<open>SignalStore\<close>\<close>

definition getKey :: "jsstring \<Rightarrow> jsstring \<Rightarrow> jsstring" where
  "getKey userId key = lit ''signal_'' @ userId @ lit ''_'' @ key"

definition getIdentityKeyPair :: "env \<Rightarrow> jsstring \<Rightarrow> secure_store \<Rightarrow> IdentityKeyPair option" where
  "getIdentityKeyPair e userId st =
     (let privateKeyData = st (getKey userId (lit ''identity_private''));
          publicKeyData = st (getKey userId (lit ''identity_public''))
      in if \<not> truthy privateKeyData \<or> \<not> truthy publicKeyData then None
         else case PrivateKey_deserialize e (base64_decode e (the privateKeyData)) of
                Inl err \<Rightarrow> None
              | Inr privateKey \<Rightarrow>
                  (case PublicKey_deserialize e (base64_decode e (the publicKeyData)) of
                     Inl err \<Rightarrow> None
                   | Inr publicKey \<Rightarrow>
                       Some \<lparr>kp_publicKey = publicKey, kp_privateKey = privateKey\<rparr>))"

definition saveIdentityKeyPair :: "env \<Rightarrow> jsstring \<Rightarrow> IdentityKeyPair \<Rightarrow> secure_store \<Rightarrow> secure_store" where
  "saveIdentityKeyPair e userId keyPair st =
     (let privateKeyData = sk_serialize (kp_privateKey keyPair);
          publicKeyData = pk_serialize (kp_publicKey keyPair);
          st = st(getKey userId (lit ''identity_private'') \<mapsto> base64_encode e privateKeyData)
      in st(getKey userId (lit ''identity_public'') \<mapsto> base64_encode e publicKeyData))"

text \<open>\<open>random_draw\<close> is the value of \<open>Math.floor(Math.random() * 16384)\<close>.\<close>

definition getLocalRegistrationId :: "jsstring \<Rightarrow> secure_store \<Rightarrow> nat \<Rightarrow> js_number" where
  "getLocalRegistrationId userId st random_draw =
     (let regId = st (getKey userId (lit ''registration_id''))
      in if truthy regId then parseInt (the regId) 10 else Num (int random_draw + 1))"

definition saveRegistrationId :: "jsstring \<Rightarrow> js_number \<Rightarrow> secure_store \<Rightarrow> secure_store" where
  "saveRegistrationId userId registrationId st =
     st(getKey userId (lit ''registration_id'') \<mapsto> number_toString registrationId)"

definition getSignedPreKey :: "env \<Rightarrow> jsstring \<Rightarrow> secure_store \<Rightarrow> nat \<Rightarrow> SignedPreKeyRecord option" where
  "getSignedPreKey e userId st signedPreKeyId =
     (let data = st (getKey userId (lit ''signed_prekey_'' @ digits signedPreKeyId))
      in if \<not> truthy data then None
         else case SignedPreKeyRecord_deserialize e (base64_decode e (the data)) of
                Inl err \<Rightarrow> None
              | Inr r \<Rightarrow> Some r)"

definition saveSignedPreKey ::
  "env \<Rightarrow> jsstring \<Rightarrow> nat \<Rightarrow> SignedPreKeyRecord \<Rightarrow> secure_store \<Rightarrow> secure_store" where
  "saveSignedPreKey e userId signedPreKeyId record st =
     st(getKey userId (lit ''signed_prekey_'' @ digits signedPreKeyId)
          \<mapsto> base64_encode e (SignedPreKeyRecord_serialize e record))"

definition getPreKey :: "env \<Rightarrow> jsstring \<Rightarrow> secure_store \<Rightarrow> nat \<Rightarrow> PreKeyRecord option" where
  "getPreKey e userId st preKeyId =
     (let data = st (getKey userId (lit ''prekey_'' @ digits preKeyId))
      in if \<not> truthy data then None
         else case PreKeyRecord_deserialize e (base64_decode e (the data)) of
                Inl err \<Rightarrow> None
              | Inr r \<Rightarrow> Some r)"

definition savePreKey :: "env \<Rightarrow> jsstring \<Rightarrow> nat \<Rightarrow> PreKeyRecord \<Rightarrow> secure_store \<Rightarrow> secure_store" where
  "savePreKey e userId preKeyId record st =
     st(getKey userId (lit ''prekey_'' @ digits preKeyId)
          \<mapsto> base64_encode e (PreKeyRecord_serialize e record))"

definition session_key :: "jsstring \<Rightarrow> ProtocolAddress \<Rightarrow> jsstring" where
  "session_key userId address =
     getKey userId (lit ''session_'' @ addr_name address @ lit ''_'' @ digits (addr_deviceId address))"

definition loadSession :: "env \<Rightarrow> jsstring \<Rightarrow> secure_store \<Rightarrow> ProtocolAddress \<Rightarrow> bytes option" where
  "loadSession e userId st address =
     (let data = st (session_key userId address)
      in if \<not> truthy data then None else Some (base64_decode e (the data)))"

definition storeSession ::
  "env \<Rightarrow> jsstring \<Rightarrow> ProtocolAddress \<Rightarrow> bytes \<Rightarrow> secure_store \<Rightarrow> secure_store" where
  "storeSession e userId address record st =
     st(session_key userId address \<mapsto> base64_encode e record)"

text \<open>\<open>isTrustedIdentity\<close>: the body is \<open>return true\<close>.\<close>

definition isTrustedIdentity ::
  "jsstring \<Rightarrow> secure_store \<Rightarrow> ProtocolAddress \<Rightarrow> PublicKey \<Rightarrow> bool" where
  "isTrustedIdentity userId st address identityKey = True"

definition saveIdentity ::
  "env \<Rightarrow> jsstring \<Rightarrow> ProtocolAddress \<Rightarrow> PublicKey \<Rightarrow> secure_store \<Rightarrow> bool \<times> secure_store" where
  "saveIdentity e userId address identityKey st =
     (let keyData = pk_serialize identityKey
      in (False, st(getKey userId (lit ''identity_'' @ addr_name address) \<mapsto> base64_encode e keyData)))"

definition getIdentity :: "env \<Rightarrow> jsstring \<Rightarrow> secure_store \<Rightarrow> ProtocolAddress \<Rightarrow> PublicKey option" where
  "getIdentity e userId st address =
     (let data = st (getKey userId (lit ''identity_'' @ addr_name address))
      in if \<not> truthy data then None
         else case PublicKey_deserialize e (base64_decode e (the data)) of
                Inl err \<Rightarrow> None
              | Inr k \<Rightarrow> Some k)"

section \<open>\<open>lib/signal.ts\<close>: \<open>SignalProtocol\<close>\<close>

record SignedPreKeyInfo =
  spk_keyId :: nat
  spk_publicKey :: jsstring
  spk_signature :: jsstring

record PreKeyInfo =
  opk_keyId :: nat
  opk_publicKey :: jsstring

record UserBundle =
  identityKey :: jsstring
  signedPreKey :: SignedPreKeyInfo
  preKey :: PreKeyInfo
  registrationId :: js_number

text \<open>What \<open>generateIdentity\<close> draws: the key pairs of \<open>IdentityKeyPair.generate()\<close>, the
  values of \<open>Math.floor(Math.random() * 16384)\<close> and \<open>Math.floor(Math.random() * 16777216)\<close>,
  and \<open>Date.now()\<close>.\<close>

record randomness =
  rnd_identityKeyPair :: IdentityKeyPair
  rnd_registrationId :: nat
  rnd_signedPreKeyId :: nat
  rnd_signedPreKeyPair :: IdentityKeyPair
  rnd_now :: nat
  rnd_preKeyId :: nat
  rnd_preKeyPair :: IdentityKeyPair

definition generateIdentity ::
  "env \<Rightarrow> jsstring \<Rightarrow> randomness \<Rightarrow> secure_store \<Rightarrow> UserBundle \<times> secure_store" where
  "generateIdentity e userId rnd st =
     (let identityKeyPair = rnd_identityKeyPair rnd;
          st = saveIdentityKeyPair e userId identityKeyPair st;
          registrationId' = Num (int (rnd_registrationId rnd) + 1);
          st = saveRegistrationId userId registrationId' st;
          signedPreKeyId = rnd_signedPreKeyId rnd;
          signedPreKeyPair = rnd_signedPreKeyPair rnd;
          signedPreKeySignature =
            private_sign e (kp_privateKey identityKeyPair)
              (pk_serialize (kp_publicKey signedPreKeyPair));
          signedPreKeyRecord =
            \<lparr>spkr_id = signedPreKeyId, spkr_timestamp = rnd_now rnd,
             spkr_keyPair = signedPreKeyPair, spkr_signature = signedPreKeySignature\<rparr>;
          st = saveSignedPreKey e userId signedPreKeyId signedPreKeyRecord st;
          preKeyId = rnd_preKeyId rnd;
          preKeyPair = rnd_preKeyPair rnd;
          preKeyRecord = \<lparr>pkr_id = preKeyId, pkr_keyPair = preKeyPair\<rparr>;
          st = savePreKey e userId preKeyId preKeyRecord st
      in (\<lparr>identityKey = base64_encode e (pk_serialize (kp_publicKey identityKeyPair)),
           signedPreKey =
             \<lparr>spk_keyId = signedPreKeyId,
              spk_publicKey = base64_encode e (pk_serialize (kp_publicKey signedPreKeyPair)),
              spk_signature = base64_encode e signedPreKeySignature\<rparr>,
           preKey =
             \<lparr>opk_keyId = preKeyId,
              opk_publicKey = base64_encode e (pk_serialize (kp_publicKey preKeyPair))\<rparr>,
           registrationId = registrationId'\<rparr>, st))"

definition registerPrekeys ::
  "env \<Rightarrow> jsstring \<Rightarrow> randomness \<Rightarrow> secure_store \<Rightarrow> secure_store" where
  "registerPrekeys e userId rnd st =
     (case getIdentityKeyPair e userId st of
        None \<Rightarrow> snd (generateIdentity e userId rnd st)
      | Some identityKeyPair \<Rightarrow> st)"

text \<open>\<open>createSession\<close>, up to \<open>PreKeyBundle.new\<close>: the three keys are deserialised in the
  order identity key, signed pre-key, pre-key; the first failure is what is thrown.\<close>

definition preKeyBundle_of :: "env \<Rightarrow> UserBundle \<Rightarrow> js_error + PreKeyBundle" where
  "preKeyBundle_of e recipientBundle =
     (case PublicKey_deserialize e (base64_decode e (identityKey recipientBundle)) of
        Inl err \<Rightarrow> Inl err
      | Inr identityKey' \<Rightarrow>
     (case PublicKey_deserialize e
             (base64_decode e (spk_publicKey (signedPreKey recipientBundle))) of
        Inl err \<Rightarrow> Inl err
      | Inr signedPreKey' \<Rightarrow>
     (case PublicKey_deserialize e (base64_decode e (opk_publicKey (preKey recipientBundle))) of
        Inl err \<Rightarrow> Inl err
      | Inr preKey' \<Rightarrow>
          (let signature = base64_decode e (spk_signature (signedPreKey recipientBundle))
           in Inr \<lparr>pkb_registrationId = registrationId recipientBundle,
                   pkb_deviceId = 1,
                   pkb_preKeyId = opk_keyId (preKey recipientBundle),
                   pkb_preKey = preKey',
                   pkb_signedPreKeyId = spk_keyId (signedPreKey recipientBundle),
                   pkb_signedPreKey = signedPreKey',
                   pkb_signature = signature,
                   pkb_identityKey = identityKey'\<rparr>))))"

text \<open>\<open>createSession\<close>: the bundle goes to the library's \<open>processPreKeyBundle\<close>; the \<open>catch\<close>
  logs and rethrows.\<close>

definition createSession ::
  "env \<Rightarrow> jsstring \<Rightarrow> secure_store \<Rightarrow> UserBundle \<Rightarrow> (js_error + ProtocolAddress) \<times> secure_store" where
  "createSession e userId st recipientBundle =
     (let recipientAddress =
            \<lparr>addr_name = number_toString (registrationId recipientBundle), addr_deviceId = 1\<rparr>
      in case preKeyBundle_of e recipientBundle of
           Inl err \<Rightarrow> (Inl err, st)
         | Inr preKeyBundle \<Rightarrow>
             (case processPreKeyBundle e userId st recipientAddress preKeyBundle of
                (Inl err, st') \<Rightarrow> (Inl err, st')
              | (Inr u, st') \<Rightarrow> (Inr recipientAddress, st')))"

definition encryptMessage ::
  "env \<Rightarrow> jsstring \<Rightarrow> secure_store \<Rightarrow> ProtocolAddress \<Rightarrow> jsstring
     \<Rightarrow> (js_error + jsstring) \<times> secure_store" where
  "encryptMessage e userId st recipientAddress plaintext =
     (case cipher_encrypt e userId st recipientAddress (utf8_encode e plaintext) of
        (Inl err, st') \<Rightarrow> (Inl err, st')
      | (Inr ciphertext, st') \<Rightarrow> (Inr (base64_encode e ciphertext), st'))"

text \<open>\<open>decryptMessage\<close>: the inner \<open>try\<close> reads the bytes as a \<open>PreKeySignalMessage\<close> and
  decrypts it; its \<open>catch\<close> (for a failed \<open>deserialize\<close> and for a failed decryption alike)
  drops what was thrown and reads the bytes as a \<open>SignalMessage\<close>, on the store as the first
  attempt left it. The outer \<open>catch\<close> logs and rethrows.\<close>

definition try_PreKeySignalMessage ::
  "env \<Rightarrow> jsstring \<Rightarrow> secure_store \<Rightarrow> ProtocolAddress \<Rightarrow> bytes \<Rightarrow> (js_error + bytes) \<times> secure_store" where
  "try_PreKeySignalMessage e userId st senderAddress ciphertextBuffer =
     (case PreKeySignalMessage_deserialize e ciphertextBuffer of
        Inl err \<Rightarrow> (Inl err, st)
      | Inr preKeyMessage \<Rightarrow> decryptPreKeySignalMessage e userId st senderAddress preKeyMessage)"

definition try_SignalMessage ::
  "env \<Rightarrow> jsstring \<Rightarrow> secure_store \<Rightarrow> ProtocolAddress \<Rightarrow> bytes \<Rightarrow> (js_error + bytes) \<times> secure_store" where
  "try_SignalMessage e userId st senderAddress ciphertextBuffer =
     (case SignalMessage_deserialize e ciphertextBuffer of
        Inl err \<Rightarrow> (Inl err, st)
      | Inr signalMessage \<Rightarrow> decryptSignalMessage e userId st senderAddress signalMessage)"

definition decryptMessage ::
  "env \<Rightarrow> jsstring \<Rightarrow> secure_store \<Rightarrow> ProtocolAddress \<Rightarrow> jsstring
     \<Rightarrow> (js_error + jsstring) \<times> secure_store" where
  "decryptMessage e userId st senderAddress ciphertext =
     (let ciphertextBuffer = base64_decode e ciphertext
      in case try_PreKeySignalMessage e userId st senderAddress ciphertextBuffer of
           (Inr decryptedBuffer, st') \<Rightarrow> (Inr (utf8_decode e decryptedBuffer), st')
         | (Inl caught, st') \<Rightarrow>
             (case try_SignalMessage e userId st' senderAddress ciphertextBuffer of
                (Inl err, st'') \<Rightarrow> (Inl err, st'')
              | (Inr decryptedBuffer, st'') \<Rightarrow> (Inr (utf8_decode e decryptedBuffer), st'')))"

definition getUserBundle :: "env \<Rightarrow> jsstring \<Rightarrow> secure_store \<Rightarrow> nat \<Rightarrow> UserBundle option" where
  "getUserBundle e userId st random_draw =
     (let identityKeyPair = getIdentityKeyPair e userId st;
          registrationId' = getLocalRegistrationId userId st random_draw
      in case identityKeyPair of
           None \<Rightarrow> None
         | Some identityKeyPair \<Rightarrow>
             (let signedPreKeyId = 1;
                  preKeyId = 1;
                  signedPreKey' = getSignedPreKey e userId st signedPreKeyId;
                  preKey' = getPreKey e userId st preKeyId
              in case (signedPreKey', preKey') of
                   (Some signedPreKey', Some preKey') \<Rightarrow>
                     Some \<lparr>identityKey = base64_encode e (pk_serialize (kp_publicKey identityKeyPair)),
                           signedPreKey =
                             \<lparr>spk_keyId = signedPreKeyId,
                              spk_publicKey =
                                base64_encode e
                                  (pk_serialize (kp_publicKey (spkr_keyPair signedPreKey'))),
                              spk_signature = base64_encode e (spkr_signature signedPreKey')\<rparr>,
                           preKey =
                             \<lparr>opk_keyId = preKeyId,
                              opk_publicKey =
                                base64_encode e (pk_serialize (kp_publicKey (pkr_keyPair preKey')))\<rparr>,
                           registrationId = registrationId'\<rparr>
                 | _ \<Rightarrow> None))"

text \<open>\<open>str.match(/.{1,5}/g)\<close>: greedy groups of one to five code units; \<open>.\<close> does not match
  a line terminator. \<open>join\<close> is \<open>Array.prototype.join\<close>.\<close>

definition is_line_terminator :: "code_unit \<Rightarrow> bool" where
  "is_line_terminator c = (c \<in> set [0xA, 0xD, 0x2028, 0x2029])"

fun match_groups :: "jsstring \<Rightarrow> jsstring list" where
  "match_groups [] = []"
| "match_groups (c # cs) =
     (if is_line_terminator c then match_groups cs
      else (c # takeWhile (\<lambda>x. \<not> is_line_terminator x) (take 4 cs))
             # match_groups (drop (length (takeWhile (\<lambda>x. \<not> is_line_terminator x) (take 4 cs))) cs))"

fun join :: "jsstring \<Rightarrow> jsstring list \<Rightarrow> jsstring" where
  "join sep [] = []"
| "join sep [x] = x"
| "join sep (x # y # r) = x @ sep @ join sep (y # r)"

definition format_groups :: "jsstring \<Rightarrow> jsstring" where
  "format_groups hash =
     (let groups = match_groups (take 60 hash)
      in if groups = [] \<or> join (lit '' '') groups = [] then take 60 hash
         else join (lit '' '') groups)"

definition getSafetyNumber :: "env \<Rightarrow> jsstring \<Rightarrow> secure_store \<Rightarrow> UserBundle \<Rightarrow> jsstring" where
  "getSafetyNumber e userId st otherUserBundle =
     (case getIdentityKeyPair e userId st of
        None \<Rightarrow> lit ''Error generating safety number''
      | Some identityKeyPair \<Rightarrow>
          (let ourKey = pk_serialize (kp_publicKey identityKeyPair);
               theirKey = base64_decode e (identityKey otherUserBundle);
               combined = ourKey @ theirKey;
               hash = sha256_hex e combined
           in format_groups hash))"

section \<open>\<open>services/CryptoService.ts\<close>\<close>

text \<open>A row of the \<open>profiles\<close> table, as \<open>savePublicBundle\<close> writes it and \<open>encryptMessage\<close>
  selects it. \<open>identity_key_public\<close> and \<open>one_time_prekeys\<close> may be \<open>null\<close>.\<close>

record profile =
  identity_key_public :: "jsstring option"
  signed_prekey :: SignedPreKeyInfo
  one_time_prekeys :: "PreKeyInfo list option"

type_synonym profiles = "jsstring \<rightharpoonup> profile"

text \<open>\<open>parseInt(id.replace(/-/g, '').substring(0, 8), 16) % 16384 + 1\<close>\<close>

definition registrationId_of :: "jsstring \<Rightarrow> js_number" where
  "registrationId_of userId =
     js_add (js_rem (parseInt (take 8 (filter (\<lambda>c. c \<noteq> 0x2D) userId)) 16) 16384) 1"

text \<open>The recipient bundle of \<open>encryptMessage\<close> and \<open>getSafetyNumber\<close>, for a profile whose
  \<open>identity_key_public\<close> is set: \<open>one_time_prekeys?.[0] || {keyId: 1, publicKey:
  identity_key_public}\<close>.\<close>

definition recipientBundle_of :: "profile \<Rightarrow> jsstring \<Rightarrow> UserBundle" where
  "recipientBundle_of recipientProfile recipientId =
     \<lparr>identityKey = the (identity_key_public recipientProfile),
      signedPreKey = signed_prekey recipientProfile,
      preKey =
        (case one_time_prekeys recipientProfile of
           Some (k # _) \<Rightarrow> k
         | _ \<Rightarrow> \<lparr>opk_keyId = 1, opk_publicKey = the (identity_key_public recipientProfile)\<rparr>),
      registrationId = registrationId_of recipientId\<rparr>"

definition CryptoService_encryptMessage ::
  "env \<Rightarrow> jsstring \<Rightarrow> profiles \<Rightarrow> secure_store \<Rightarrow> jsstring \<Rightarrow> jsstring
     \<Rightarrow> (js_error + jsstring) \<times> secure_store" where
  "CryptoService_encryptMessage e userId db st recipientId message =
     (case db recipientId of
        None \<Rightarrow> (Inl (Error (lit ''Recipient public key not found'')), st)
      | Some recipientProfile \<Rightarrow>
          if \<not> truthy (identity_key_public recipientProfile)
          then (Inl (Error (lit ''Recipient public key not found'')), st)
          else (case createSession e userId st (recipientBundle_of recipientProfile recipientId) of
                  (Inl err, st') \<Rightarrow> (Inl err, st')
                | (Inr recipientAddress, st') \<Rightarrow>
                    encryptMessage e userId st' recipientAddress message))"

definition is_base64_char :: "code_unit \<Rightarrow> bool" where
  "is_base64_char c =
     ((0x41 \<le> c \<and> c \<le> 0x5A) \<or> (0x61 \<le> c \<and> c \<le> 0x7A) \<or> (0x30 \<le> c \<and> c \<le> 0x39)
      \<or> c = 0x2B \<or> c = 0x2F \<or> c = 0x3D)"

text \<open>\<open>/^[A-Za-z0-9+/=]+$/.test(str) && str.length % 4 === 0\<close>, after the length check.\<close>

definition looksEncrypted :: "jsstring \<Rightarrow> bool" where
  "looksEncrypted str =
     (if length str < 10 then False
      else (str \<noteq> [] \<and> list_all is_base64_char str) \<and> length str mod 4 = 0)"

text \<open>The sender address of \<open>decryptMessage\<close>:
  \<open>new Signal.ProtocolAddress(senderRegistrationId.toString(), 1)\<close>.\<close>

definition address_of :: "jsstring \<Rightarrow> ProtocolAddress" where
  "address_of senderId =
     (let senderRegistrationId = registrationId_of senderId
      in \<lparr>addr_name = number_toString senderRegistrationId, addr_deviceId = 1\<rparr>)"

text \<open>\<open>CryptoService.decryptMessage\<close>. \<open>None\<close> stands for an argument that is not a string at
  run time. The statements before the decryption cannot throw, so the \<open>catch\<close> of the
  source, which returns \<open>encryptedMessage\<close>, is reached from the decryption only.\<close>

definition CryptoService_decryptMessage ::
  "env \<Rightarrow> jsstring \<Rightarrow> secure_store \<Rightarrow> jsstring option \<Rightarrow> jsstring
     \<Rightarrow> (js_error + jsstring) \<times> secure_store" where
  "CryptoService_decryptMessage e userId st encryptedMessage senderId =
     (case encryptedMessage of
        None \<Rightarrow> (Inr (lit ''[Empty message]''), st)
      | Some message \<Rightarrow>
          if message = [] then (Inr (lit ''[Empty message]''), st)
          else if \<not> looksEncrypted message then (Inr message, st)
          else (let senderAddress = address_of senderId
                in case decryptMessage e userId st senderAddress message of
                     (Inr decryptedMessage, st') \<Rightarrow> (Inr decryptedMessage, st')
                   | (Inl caught, st') \<Rightarrow> (Inr message, st')))"

definition CryptoService_getSafetyNumber ::
  "env \<Rightarrow> jsstring \<Rightarrow> profiles \<Rightarrow> secure_store \<Rightarrow> jsstring \<Rightarrow> jsstring" where
  "CryptoService_getSafetyNumber e userId db st otherUserId =
     (case db otherUserId of
        None \<Rightarrow> lit ''Error generating safety number''
      | Some otherProfile \<Rightarrow>
          if \<not> truthy (identity_key_public otherProfile)
          then lit ''Error generating safety number''
          else getSafetyNumber e userId st (recipientBundle_of otherProfile otherUserId))"

section \<open>The chat screen: \<open>sendMessage\<close>\<close>

record MessageData =
  sender_id :: jsstring
  recipient_id :: jsstring
  ciphertext :: jsstring
  message_type :: jsstring
  expires_at :: "int option"
  expire_duration :: "int option"

record Message = MessageData +
  msg_id :: jsstring

record MessageItem =
  item_row :: Message
  decryptedText :: jsstring
  isOutgoing :: bool

text \<open>The state of the screen that \<open>sendMessage\<close> reads and sets.\<close>

record chat =
  inputText :: jsstring
  sending :: bool
  error :: "jsstring option"
  messages :: "MessageItem list"

text \<open>What one call leaves behind: the screen, the secure store, the row handed to
  \<open>supabase.from('messages').insert\<close> (if the call got that far) and the timer set by
  \<open>setTimeout\<close> (message id, milliseconds).\<close>

record sent =
  screen :: chat
  store :: secure_store
  inserted :: "MessageData option"
  timer :: "(jsstring \<times> int) option"

definition error_message :: "js_error \<Rightarrow> jsstring" where
  "error_message err = (case err of Error m \<Rightarrow> m | TypeError m \<Rightarrow> m | LibraryError m \<Rightarrow> m)"

fun js_includes :: "jsstring \<Rightarrow> jsstring \<Rightarrow> bool" where
  "js_includes [] t = (t = [])"
| "js_includes (c # cs) t = (take (length t) (c # cs) = t \<or> js_includes cs t)"

text \<open>
  \<open>sendMessage\<close>. \<open>user\<close> is \<open>user.id\<close> when a user is signed in, \<open>recipientId\<close> the route
  parameter, \<open>cryptoService\<close> the user id of \<open>cryptoServiceRef.current\<close> when it is set,
  \<open>insert_row\<close> the outcome of the insert into \<open>messages\<close> (the row or \<open>insertError\<close>) and
  \<open>now\<close> the clock in milliseconds; \<open>expires_at\<close> is kept as a time, not as its ISO text.
\<close>

definition sendMessage ::
  "env \<Rightarrow> profiles \<Rightarrow> (MessageData \<Rightarrow> js_error + Message) \<Rightarrow> int \<Rightarrow> jsstring option
     \<Rightarrow> jsstring option \<Rightarrow> jsstring option \<Rightarrow> int \<Rightarrow> secure_store \<Rightarrow> chat \<Rightarrow> sent" where
  "sendMessage e db insert_row now user recipientId cryptoService defaultExpireDuration st c =
     (if trim (inputText c) = [] \<or> user = None \<or> \<not> truthy recipientId \<or> sending c
      then \<lparr>screen = c, store = st, inserted = None, timer = None\<rparr>
      else
        (let c = c\<lparr>sending := True\<rparr>;
             c = c\<lparr>error := None\<rparr>;
             messageText = trim (inputText c);
             c = c\<lparr>inputText := []\<rparr>;
             (encryptedMessage, st) =
               (case cryptoService of
                  None \<Rightarrow> (messageText, st)
                | Some serviceUser \<Rightarrow>
                    (case CryptoService_encryptMessage e serviceUser db st (the recipientId)
                            messageText of
                       (Inr encrypted, st') \<Rightarrow> (encrypted, st')
                     | (Inl encryptError, st') \<Rightarrow> (messageText, st')));
             messageData =
               \<lparr>sender_id = the user,
                recipient_id = the recipientId,
                ciphertext = encryptedMessage,
                message_type = lit ''whisper'',
                expires_at =
                  (if defaultExpireDuration > 0 then Some (now + defaultExpireDuration * 1000)
                   else None),
                expire_duration =
                  (if defaultExpireDuration > 0 then Some defaultExpireDuration else None)\<rparr>
         in case insert_row messageData of
              Inl insertError \<Rightarrow>
                (let errorMsg =
                       (if error_message insertError = [] then lit ''Failed to send message''
                        else error_message insertError);
                     c = (if js_includes errorMsg (lit ''encryption keys'')
                          then c\<lparr>error := Some (lit ''Recipient needs to set up Signal protocol. Ask them to open the app and go to Settings ''
                                   @ [0xE2, 0x2020, 0x2019] @ lit '' Initialize Signal Protocol.'')\<rparr>
                          else c\<lparr>error := Some errorMsg\<rparr>);
                     c = c\<lparr>inputText := messageText\<rparr>;
                     c = c\<lparr>sending := False\<rparr>
                 in \<lparr>screen = c, store = st, inserted = Some messageData, timer = None\<rparr>)
            | Inr data \<Rightarrow>
                (let messageItem =
                       \<lparr>item_row = data, decryptedText = messageText, isOutgoing = True\<rparr>;
                     c = c\<lparr>messages := messages c @ [messageItem]\<rparr>;
                     c = c\<lparr>sending := False\<rparr>
                 in \<lparr>screen = c, store = st, inserted = Some messageData,
                     timer =
                       (if defaultExpireDuration > 0 \<and> msg_id data \<noteq> []
                        then Some (msg_id data, defaultExpireDuration * 1000) else None)\<rparr>)))"

section \<open>A reference platform\<close>

text \<open>
  One value of \<open>env\<close>, for the closed instances below: the standard base64 and UTF-8 codecs,
  SHA-256, keys as the library serialises them (a public key is the type byte 5 and 32
  bytes, a private key 32 bytes), records in a fixed-width layout, and sessions that keep
  only the two message counters of a ratchet, with the message number and the plaintext
  in the clear. It encrypts nothing; it is there to run the repository's code on concrete
  inputs, and no theorem about every \<open>env\<close> depends on it.
\<close>

subsection \<open>Base64 and UTF-8\<close>

definition base64_alphabet :: jsstring where
  "base64_alphabet = lit ''ABCDEFGHIJKLMNOPQRSTUVWXYZabcdefghijklmnopqrstuvwxyz0123456789+/''"

fun std_base64_encode :: "bytes \<Rightarrow> jsstring" where
  "std_base64_encode (a # b # c # r) =
     (let n = unat a * 65536 + unat b * 256 + unat c
      in [base64_alphabet ! (n div 262144), base64_alphabet ! (n div 4096 mod 64),
          base64_alphabet ! (n div 64 mod 64), base64_alphabet ! (n mod 64)]
         @ std_base64_encode r)"
| "std_base64_encode [a, b] =
     (let n = unat a * 1024 + unat b * 4
      in [base64_alphabet ! (n div 4096), base64_alphabet ! (n div 64 mod 64),
          base64_alphabet ! (n mod 64), 0x3D])"
| "std_base64_encode [a] =
     (let n = unat a * 16 in [base64_alphabet ! (n div 64), base64_alphabet ! (n mod 64), 0x3D, 0x3D])"
| "std_base64_encode [] = []"

definition base64_value :: "code_unit \<Rightarrow> nat option" where
  "base64_value c =
     (if 0x41 \<le> c \<and> c \<le> 0x5A then Some (unat c - 65)
      else if 0x61 \<le> c \<and> c \<le> 0x7A then Some (unat c - 71)
      else if 0x30 \<le> c \<and> c \<le> 0x39 then Some (unat c + 4)
      else if c = 0x2B then Some 62
      else if c = 0x2F then Some 63
      else None)"

fun base64_groups :: "nat list \<Rightarrow> bytes" where
  "base64_groups (a # b # c # d # r) =
     (let n = ((a * 64 + b) * 64 + c) * 64 + d
      in [of_nat (n div 65536), of_nat (n div 256 mod 256), of_nat (n mod 256)] @ base64_groups r)"
| "base64_groups [a, b, c] =
     (let n = (a * 64 + b) * 64 + c in [of_nat (n div 1024), of_nat (n div 4 mod 256)])"
| "base64_groups [a, b] = [of_nat ((a * 64 + b) div 16)]"
| "base64_groups _ = []"

text \<open>Decoding stops at the first \<open>=\<close> and skips what is not in the alphabet.\<close>

definition std_base64_decode :: "jsstring \<Rightarrow> bytes" where
  "std_base64_decode s =
     base64_groups
       (map (\<lambda>c. the (base64_value c))
          (filter (\<lambda>c. base64_value c \<noteq> None) (takeWhile (\<lambda>c. c \<noteq> 0x3D) s)))"

definition is_high_surrogate :: "nat \<Rightarrow> bool" where
  "is_high_surrogate u = (0xD800 \<le> u \<and> u < 0xDC00)"

definition is_low_surrogate :: "nat \<Rightarrow> bool" where
  "is_low_surrogate u = (0xDC00 \<le> u \<and> u < 0xE000)"

fun std_utf8_encode :: "jsstring \<Rightarrow> bytes" where
  "std_utf8_encode [] = []"
| "std_utf8_encode (c # cs) =
     (let u = unat c
      in if u < 0x80 then of_nat u # std_utf8_encode cs
         else if u < 0x800 then [of_nat (0xC0 + u div 64), of_nat (0x80 + u mod 64)] @ std_utf8_encode cs
         else if is_high_surrogate u \<and> cs \<noteq> [] \<and> is_low_surrogate (unat (hd cs))
         then (let cp = 0x10000 + (u - 0xD800) * 1024 + (unat (hd cs) - 0xDC00)
               in [of_nat (0xF0 + cp div 262144), of_nat (0x80 + cp div 4096 mod 64),
                   of_nat (0x80 + cp div 64 mod 64), of_nat (0x80 + cp mod 64)]
                  @ std_utf8_encode (tl cs))
         else if is_high_surrogate u \<or> is_low_surrogate u then [0xEF, 0xBF, 0xBD] @ std_utf8_encode cs
         else [of_nat (0xE0 + u div 4096), of_nat (0x80 + u div 64 mod 64), of_nat (0x80 + u mod 64)]
              @ std_utf8_encode cs)"

definition continuation :: "nat \<Rightarrow> bytes \<Rightarrow> bool" where
  "continuation k bs = (k \<le> length bs \<and> list_all (\<lambda>b. 0x80 \<le> b \<and> b < 0xC0) (take k bs))"

definition code_point :: "nat \<Rightarrow> bytes \<Rightarrow> nat" where
  "code_point lead bs = foldl (\<lambda>n b. n * 64 + (unat b - 0x80)) lead bs"

text \<open>An ill-formed byte decodes to U+FFFD.\<close>

fun std_utf8_decode :: "bytes \<Rightarrow> jsstring" where
  "std_utf8_decode [] = []"
| "std_utf8_decode (b # bs) =
     (let u = unat b
      in if u < 0x80 then of_nat u # std_utf8_decode bs
         else if 0xC2 \<le> u \<and> u < 0xE0 \<and> continuation 1 bs
         then of_nat (code_point (u - 0xC0) (take 1 bs)) # std_utf8_decode (drop 1 bs)
         else if 0xE0 \<le> u \<and> u < 0xF0 \<and> continuation 2 bs
                 \<and> 0x800 \<le> code_point (u - 0xE0) (take 2 bs)
                 \<and> \<not> is_high_surrogate (code_point (u - 0xE0) (take 2 bs))
                 \<and> \<not> is_low_surrogate (code_point (u - 0xE0) (take 2 bs))
         then of_nat (code_point (u - 0xE0) (take 2 bs)) # std_utf8_decode (drop 2 bs)
         else if 0xF0 \<le> u \<and> u < 0xF5 \<and> continuation 3 bs
                 \<and> 0x10000 \<le> code_point (u - 0xF0) (take 3 bs)
                 \<and> code_point (u - 0xF0) (take 3 bs) < 0x110000
         then (let v = code_point (u - 0xF0) (take 3 bs) - 0x10000
               in [of_nat (0xD800 + v div 1024), of_nat (0xDC00 + v mod 1024)]
                  @ std_utf8_decode (drop 3 bs))
         else 0xFFFD # std_utf8_decode bs)"

subsection \<open>SHA-256 (FIPS 180-4), as \<open>createHash('sha256').update(b).digest('hex')\<close>\<close>

text \<open>The round constants and the initial hash value, in decimal.\<close>

type_synonym u32 = "32 word"
type_synonym sha_state = "u32 \<times> u32 \<times> u32 \<times> u32 \<times> u32 \<times> u32 \<times> u32 \<times> u32"

definition rotr :: "nat \<Rightarrow> u32 \<Rightarrow> u32" where
  "rotr n x = (drop_bit n x) OR (push_bit (32 - n) x)"

definition sha_K :: "u32 list" where
  "sha_K =
    [1116352408, 1899447441, 3049323471, 3921009573, 961987163, 1508970993,
     2453635748, 2870763221, 3624381080, 310598401, 607225278, 1426881987,
     1925078388, 2162078206, 2614888103, 3248222580, 3835390401, 4022224774,
     264347078, 604807628, 770255983, 1249150122, 1555081692, 1996064986,
     2554220882, 2821834349, 2952996808, 3210313671, 3336571891, 3584528711,
     113926993, 338241895, 666307205, 773529912, 1294757372, 1396182291,
     1695183700, 1986661051, 2177026350, 2456956037, 2730485921, 2820302411,
     3259730800, 3345764771, 3516065817, 3600352804, 4094571909, 275423344,
     430227734, 506948616, 659060556, 883997877, 958139571, 1322822218,
     1537002063, 1747873779, 1955562222, 2024104815, 2227730452, 2361852424,
     2428436474, 2756734187, 3204031479, 3329325298]"

definition sha_H0 :: sha_state where
  "sha_H0 = (1779033703, 3144134277, 1013904242, 2773480762,
             1359893119, 2600822924, 528734635, 1541459225)"

fun be32 :: "bytes \<Rightarrow> u32 list" where
  "be32 bs =
     (if length bs < 4 then []
      else (push_bit 24 (ucast (bs ! 0)) OR push_bit 16 (ucast (bs ! 1))
              OR push_bit 8 (ucast (bs ! 2)) OR ucast (bs ! 3))
           # be32 (drop 4 bs))"

declare be32.simps [simp del]

definition sha_pad :: "bytes \<Rightarrow> bytes" where
  "sha_pad m =
     (let l = length m; z = (119 - l mod 64) mod 64
      in m @ [0x80] @ replicate z 0
           @ map (\<lambda>i. ucast (drop_bit (8 * (7 - i)) (of_nat (8 * l) :: 64 word))) [0..<8])"

text \<open>The message schedule, newest word first: \<open>ws ! 0\<close> is \<open>w[t - 1]\<close>.\<close>

fun sched :: "nat \<Rightarrow> u32 list \<Rightarrow> u32 list" where
  "sched 0 ws = ws"
| "sched (Suc n) ws =
     (let s0 = rotr 7 (ws ! 14) XOR rotr 18 (ws ! 14) XOR drop_bit 3 (ws ! 14);
          s1 = rotr 17 (ws ! 1) XOR rotr 19 (ws ! 1) XOR drop_bit 10 (ws ! 1)
      in sched n ((ws ! 15 + s0 + ws ! 6 + s1) # ws))"

definition sha_round :: "sha_state \<Rightarrow> u32 \<times> u32 \<Rightarrow> sha_state" where
  "sha_round s kw =
     (case s of (a, b, c, d, e, f, g, h) \<Rightarrow> case kw of (k, w) \<Rightarrow>
        (let S1 = rotr 6 e XOR rotr 11 e XOR rotr 25 e;
             ch = (e AND f) XOR (NOT e AND g);
             t1 = h + S1 + ch + k + w;
             S0 = rotr 2 a XOR rotr 13 a XOR rotr 22 a;
             mj = (a AND b) XOR (a AND c) XOR (b AND c);
             t2 = S0 + mj
         in (t1 + t2, a, b, c, d + t1, e, f, g)))"

definition add_state :: "sha_state \<Rightarrow> sha_state \<Rightarrow> sha_state" where
  "add_state s t =
     (case s of (a, b, c, d, e, f, g, h) \<Rightarrow> case t of (a', b', c', d', e', f', g', h') \<Rightarrow>
        (a + a', b + b', c + c', d + d', e + e', f + f', g + g', h + h'))"

definition compress :: "sha_state \<Rightarrow> u32 list \<Rightarrow> sha_state" where
  "compress hs blk = add_state hs (foldl sha_round hs (zip sha_K (rev (sched 48 (rev blk)))))"

fun blocks :: "nat \<Rightarrow> u32 list \<Rightarrow> u32 list list" where
  "blocks 0 ws = []"
| "blocks (Suc n) ws = take 16 ws # blocks n (drop 16 ws)"

definition sha256 :: "bytes \<Rightarrow> sha_state" where
  "sha256 m = (let ws = be32 (sha_pad m) in foldl compress sha_H0 (blocks (length ws div 16) ws))"

definition hex32 :: "u32 \<Rightarrow> jsstring" where
  "hex32 w = map (\<lambda>i. lit ''0123456789abcdef'' ! unat (drop_bit (28 - 4 * i) w AND 0xF)) [0..<8]"

definition std_sha256_hex :: "bytes \<Rightarrow> jsstring" where
  "std_sha256_hex m =
     (case sha256 m of (a, b, c, d, e, f, g, h) \<Rightarrow>
        hex32 a @ hex32 b @ hex32 c @ hex32 d @ hex32 e @ hex32 f @ hex32 g @ hex32 h)"

subsection \<open>Keys, records and sessions\<close>

definition ref_PublicKey_deserialize :: "bytes \<Rightarrow> js_error + PublicKey" where
  "ref_PublicKey_deserialize bs =
     (if length bs = 33 \<and> hd bs = 0x05 then Inr (PublicKey bs)
      else Inl (LibraryError (lit ''bad public key'')))"

definition ref_PrivateKey_deserialize :: "bytes \<Rightarrow> js_error + PrivateKey" where
  "ref_PrivateKey_deserialize bs =
     (if length bs = 32 then Inr (PrivateKey bs) else Inl (LibraryError (lit ''bad private key'')))"

text \<open>A stand-in for the signature: 64 bytes that depend on the key and the message.\<close>

definition ref_sign :: "PrivateKey \<Rightarrow> bytes \<Rightarrow> bytes" where
  "ref_sign k m = map2 (XOR) (sk_serialize k @ sk_serialize k) (take 64 (m @ m))"

definition be_bytes :: "nat \<Rightarrow> nat \<Rightarrow> bytes" where
  "be_bytes k v = map (\<lambda>i. of_nat (v div 256 ^ (k - 1 - i))) [0..<k]"

definition be_value :: "bytes \<Rightarrow> nat" where
  "be_value bs = foldl (\<lambda>n b. 256 * n + unat b) 0 bs"

definition keyPair_bytes :: "IdentityKeyPair \<Rightarrow> bytes" where
  "keyPair_bytes kp = pk_serialize (kp_publicKey kp) @ sk_serialize (kp_privateKey kp)"

definition keyPair_of_bytes :: "bytes \<Rightarrow> IdentityKeyPair" where
  "keyPair_of_bytes bs =
     \<lparr>kp_publicKey = PublicKey (take 33 bs), kp_privateKey = PrivateKey (take 32 (drop 33 bs))\<rparr>"

definition ref_SignedPreKeyRecord_serialize :: "SignedPreKeyRecord \<Rightarrow> bytes" where
  "ref_SignedPreKeyRecord_serialize r =
     be_bytes 4 (spkr_id r) @ be_bytes 8 (spkr_timestamp r) @ keyPair_bytes (spkr_keyPair r)
       @ spkr_signature r"

definition ref_SignedPreKeyRecord_deserialize :: "bytes \<Rightarrow> js_error + SignedPreKeyRecord" where
  "ref_SignedPreKeyRecord_deserialize bs =
     (if length bs < 77 then Inl (LibraryError (lit ''bad signed pre-key record''))
      else Inr \<lparr>spkr_id = be_value (take 4 bs), spkr_timestamp = be_value (take 8 (drop 4 bs)),
                spkr_keyPair = keyPair_of_bytes (drop 12 bs), spkr_signature = drop 77 bs\<rparr>)"

definition ref_PreKeyRecord_serialize :: "PreKeyRecord \<Rightarrow> bytes" where
  "ref_PreKeyRecord_serialize r = be_bytes 4 (pkr_id r) @ keyPair_bytes (pkr_keyPair r)"

definition ref_PreKeyRecord_deserialize :: "bytes \<Rightarrow> js_error + PreKeyRecord" where
  "ref_PreKeyRecord_deserialize bs =
     (if length bs \<noteq> 69 then Inl (LibraryError (lit ''bad pre-key record''))
      else Inr \<lparr>pkr_id = be_value (take 4 bs), pkr_keyPair = keyPair_of_bytes (drop 4 bs)\<rparr>)"

text \<open>A session is the pair (messages received, messages sent), kept where \<open>storeSession\<close>
  keeps a session record. An envelope is a tag (\<open>0x33\<close> for a \<open>PreKeySignalMessage\<close>, \<open>0x32\<close>
  for a \<open>SignalMessage\<close>), the message number, a check byte over number and payload, and
  the payload.\<close>

definition ref_session :: "jsstring \<Rightarrow> secure_store \<Rightarrow> ProtocolAddress \<Rightarrow> (nat \<times> nat) option" where
  "ref_session userId st address =
     (case st (session_key userId address) of
        None \<Rightarrow> None
      | Some d \<Rightarrow> (case std_base64_decode d of [r, s] \<Rightarrow> Some (unat r, unat s) | _ \<Rightarrow> None))"

definition ref_store_session ::
  "jsstring \<Rightarrow> ProtocolAddress \<Rightarrow> nat \<Rightarrow> nat \<Rightarrow> secure_store \<Rightarrow> secure_store" where
  "ref_store_session userId address r s st =
     st(session_key userId address \<mapsto> std_base64_encode [of_nat r, of_nat s])"

definition check_byte :: "bytes \<Rightarrow> 8 word" where
  "check_byte bs = foldl (XOR) 0x5A bs"

definition ref_processPreKeyBundle ::
  "jsstring \<Rightarrow> secure_store \<Rightarrow> ProtocolAddress \<Rightarrow> PreKeyBundle \<Rightarrow> (js_error + unit) \<times> secure_store" where
  "ref_processPreKeyBundle userId st address bundle =
     (Inr (), ref_store_session userId address 0 0 st)"

definition ref_encrypt ::
  "jsstring \<Rightarrow> secure_store \<Rightarrow> ProtocolAddress \<Rightarrow> bytes \<Rightarrow> (js_error + bytes) \<times> secure_store" where
  "ref_encrypt userId st address plaintext =
     (case ref_session userId st address of
        None \<Rightarrow> (Inl (LibraryError (lit ''no session'')), st)
      | Some (r, s) \<Rightarrow>
          (Inr ([if r = 0 then 0x33 else 0x32, of_nat s, check_byte (of_nat s # plaintext)]
                @ plaintext),
           ref_store_session userId address r (s + 1) st))"

definition ref_PreKeySignalMessage_deserialize :: "bytes \<Rightarrow> js_error + PreKeySignalMessage" where
  "ref_PreKeySignalMessage_deserialize bs =
     (if 3 \<le> length bs \<and> hd bs = 0x33 then Inr (PreKeySignalMessage bs)
      else Inl (LibraryError (lit ''not a PreKeySignalMessage'')))"

definition ref_SignalMessage_deserialize :: "bytes \<Rightarrow> js_error + SignalMessage" where
  "ref_SignalMessage_deserialize bs =
     (if 3 \<le> length bs \<and> hd bs = 0x32 then Inr (SignalMessage bs)
      else Inl (LibraryError (lit ''not a SignalMessage'')))"

definition ref_receive ::
  "jsstring \<Rightarrow> secure_store \<Rightarrow> ProtocolAddress \<Rightarrow> nat \<times> nat \<Rightarrow> bytes \<Rightarrow> (js_error + bytes) \<times> secure_store" where
  "ref_receive userId st address session bs =
     (let n = bs ! 1; payload = drop 3 bs
      in if bs ! 2 \<noteq> check_byte (n # payload) then (Inl (LibraryError (lit ''bad MAC'')), st)
         else if unat n < fst session then (Inl (LibraryError (lit ''duplicate message'')), st)
         else (Inr payload, ref_store_session userId address (unat n + 1) (snd session) st))"

definition ref_decryptPreKeySignalMessage ::
  "jsstring \<Rightarrow> secure_store \<Rightarrow> ProtocolAddress \<Rightarrow> PreKeySignalMessage
     \<Rightarrow> (js_error + bytes) \<times> secure_store" where
  "ref_decryptPreKeySignalMessage userId st address m =
     (case m of PreKeySignalMessage bs \<Rightarrow>
        ref_receive userId st address
          (case ref_session userId st address of None \<Rightarrow> (0, 0) | Some session \<Rightarrow> session) bs)"

definition ref_decryptSignalMessage ::
  "jsstring \<Rightarrow> secure_store \<Rightarrow> ProtocolAddress \<Rightarrow> SignalMessage
     \<Rightarrow> (js_error + bytes) \<times> secure_store" where
  "ref_decryptSignalMessage userId st address m =
     (case m of SignalMessage bs \<Rightarrow>
        (case ref_session userId st address of
           None \<Rightarrow> (Inl (LibraryError (lit ''no session'')), st)
         | Some session \<Rightarrow> ref_receive userId st address session bs))"

definition ref_env :: env where
  "ref_env =
     \<lparr>base64_encode = std_base64_encode,
      base64_decode = std_base64_decode,
      utf8_encode = std_utf8_encode,
      utf8_decode = std_utf8_decode,
      sha256_hex = std_sha256_hex,
      PublicKey_deserialize = ref_PublicKey_deserialize,
      PrivateKey_deserialize = ref_PrivateKey_deserialize,
      private_sign = ref_sign,
      SignedPreKeyRecord_serialize = ref_SignedPreKeyRecord_serialize,
      SignedPreKeyRecord_deserialize = ref_SignedPreKeyRecord_deserialize,
      PreKeyRecord_serialize = ref_PreKeyRecord_serialize,
      PreKeyRecord_deserialize = ref_PreKeyRecord_deserialize,
      processPreKeyBundle = ref_processPreKeyBundle,
      cipher_encrypt = ref_encrypt,
      PreKeySignalMessage_deserialize = ref_PreKeySignalMessage_deserialize,
      SignalMessage_deserialize = ref_SignalMessage_deserialize,
      decryptPreKeySignalMessage = ref_decryptPreKeySignalMessage,
      decryptSignalMessage = ref_decryptSignalMessage\<rparr>"

subsection \<open>Two users\<close>

definition alice :: jsstring where
  "alice = lit ''a11ce000-0000-4000-8000-000000000001''"

definition bob :: jsstring where
  "bob = lit ''b0b00000-0000-4000-8000-000000000002''"

definition key_pair :: "8 word \<Rightarrow> IdentityKeyPair" where
  "key_pair x =
     \<lparr>kp_publicKey = PublicKey (0x05 # replicate 32 x),
      kp_privateKey = PrivateKey (replicate 32 (x + 0x80))\<rparr>"

text \<open>The draws of one \<open>generateIdentity\<close>: the identity key pair, and the ids of the signed
  pre-key and of the one-time pre-key.\<close>

definition draws :: "8 word \<Rightarrow> nat \<Rightarrow> nat \<Rightarrow> randomness" where
  "draws x signedPreKeyId preKeyId =
     \<lparr>rnd_identityKeyPair = key_pair x,
      rnd_registrationId = 4711,
      rnd_signedPreKeyId = signedPreKeyId,
      rnd_signedPreKeyPair = key_pair (x + 1),
      rnd_now = 1700000000000,
      rnd_preKeyId = preKeyId,
      rnd_preKeyPair = key_pair (x + 2)\<rparr>"

text \<open>Alice's first envelope to Bob, carrying \<open>hello world\<close>, and the same envelope with
  its last byte changed.\<close>

definition envelope :: jsstring where
  "envelope = lit ''MwB6aGVsbG8gd29ybGQ=''"

definition tampered_envelope :: jsstring where
  "tampered_envelope = lit ''MwB6aGVsbG8gd29ybGU=''"

text \<open>Each of them runs \<open>generateIdentity\<close> once on an empty secure store: the bundle it
  returns and the store it leaves.\<close>

definition alice_bundle :: UserBundle where
  "alice_bundle = fst (generateIdentity ref_env alice (draws 0x01 5 7) Map.empty)"

definition alice_store :: secure_store where
  "alice_store = snd (generateIdentity ref_env alice (draws 0x01 5 7) Map.empty)"

definition bob_bundle :: UserBundle where
  "bob_bundle = fst (generateIdentity ref_env bob (draws 0x21 5 7) Map.empty)"

definition bob_store :: secure_store where
  "bob_store = snd (generateIdentity ref_env bob (draws 0x21 5 7) Map.empty)"



text \<open>A backend that stores every row it is given, under the id \<open>m1\<close>.\<close>

definition stored_row :: "MessageData \<Rightarrow> js_error + Message" where
  "stored_row d =
     Inr \<lparr>sender_id = sender_id d, recipient_id = recipient_id d, ciphertext = ciphertext d,
          message_type = message_type d, expires_at = expires_at d,
          expire_duration = expire_duration d, msg_id = lit ''m1''\<rparr>"

definition draft :: chat where
  "draft = \<lparr>inputText = lit '' meet at nine '', sending = False, error = None, messages = []\<rparr>"

section \<open>Evaluating the reference platform\<close>

text \<open>Facts about the two users of the reference platform, each by evaluation; the
  theorems below use them for their closed instances.\<close>

lemma looksEncrypted_iff:
  "looksEncrypted s \<longleftrightarrow> 10 \<le> length s \<and> list_all is_base64_char s \<and> length s mod 4 = 0"
  by (auto simp: looksEncrypted_def)

lemma garbage_looksEncrypted: "looksEncrypted (lit ''AAAAAAAAAAAA'')"
  by code_simp

lemma garbage_rejected:
  "fst (decryptMessage ref_env bob Map.empty (address_of alice) (lit ''AAAAAAAAAAAA''))
     = Inl (LibraryError (lit ''not a SignalMessage''))"
  by code_simp

lemma tampered_looksEncrypted: "looksEncrypted tampered_envelope"
  by code_simp

lemma tampered_bad_MAC:
  "fst (try_PreKeySignalMessage ref_env bob Map.empty (address_of alice)
         (base64_decode ref_env tampered_envelope))
     = Inl (LibraryError (lit ''bad MAC''))"
  by code_simp

lemma tampered_not_SignalMessage:
  "fst (try_SignalMessage ref_env bob
         (snd (try_PreKeySignalMessage ref_env bob Map.empty (address_of alice)
                (base64_decode ref_env tampered_envelope)))
         (address_of alice) (base64_decode ref_env tampered_envelope))
     = Inl (LibraryError (lit ''not a SignalMessage''))"
  by code_simp

lemma tampered_returned:
  "fst (CryptoService_decryptMessage ref_env bob Map.empty (Some tampered_envelope) alice)
     = Inr tampered_envelope"
  by code_simp

lemma first_decryption:
  "fst (CryptoService_decryptMessage ref_env bob Map.empty (Some envelope) alice)
     = Inr (lit ''hello world'')"
  by code_simp

lemma no_profile_no_encryption:
  "fst (CryptoService_encryptMessage ref_env alice Map.empty Map.empty bob (lit ''meet at nine''))
     = Inl (Error (lit ''Recipient public key not found''))"
  by code_simp

lemma draft_trimmed: "trim (inputText draft) = lit ''meet at nine''"
  by code_simp

lemma draft_sent_in_the_clear:
  "map_option ciphertext
     (inserted (sendMessage ref_env Map.empty stored_row 1700000000000 (Some alice) (Some bob)
        (Some alice) 0 Map.empty draft))
     = Some (lit ''meet at nine'')"
  by code_simp

lemma draft_no_error:
  "error (screen (sendMessage ref_env Map.empty stored_row 1700000000000 (Some alice) (Some bob)
        (Some alice) 0 Map.empty draft))
     = None"
  by code_simp

lemma stored_key_read_back:
  "getIdentity ref_env bob
     (snd (saveIdentity ref_env bob (address_of alice) (kp_publicKey (key_pair 1)) Map.empty))
     (address_of alice)
     = Some (kp_publicKey (key_pair 1))"
  by code_simp

lemma keys_differ: "kp_publicKey (key_pair 9) \<noteq> kp_publicKey (key_pair 1)"
  by code_simp

section \<open>Decryption: what happens to a failure\<close>

lemma decryptMessage_both_fail:
  assumes "try_PreKeySignalMessage e userId st address (base64_decode e s) = (Inl err1, st1)"
    and "try_SignalMessage e userId st1 address (base64_decode e s) = (Inl err2, st2)"
  shows "decryptMessage e userId st address s = (Inl err2, st2)"
  using assms by (simp add: decryptMessage_def)

lemma CryptoService_decryptMessage_catches:
  assumes "looksEncrypted s"
    and "decryptMessage e userId st (address_of senderId) s = (Inl err, st')"
  shows "CryptoService_decryptMessage e userId st (Some s) senderId = (Inr s, st')"
proof -
  from assms(1) have "s \<noteq> []"
    by (auto simp: looksEncrypted_iff)
  with assms show ?thesis
    by (simp add: CryptoService_decryptMessage_def)
qed

section \<open>Where \<open>generateIdentity\<close> writes and where \<open>getUserBundle\<close> reads\<close>

lemma digits_nonempty: "digits n \<noteq> []"
  by (subst digits.simps) simp

lemma digits_1: "digits 1 = [49]" "digits (Suc 0) = [49]"
  by (simp_all add: digits.simps)

lemma digits_eq_49: "digits n = [49] \<longleftrightarrow> n = 1"
proof
  assume eq: "digits n = [49]"
  show "n = 1"
  proof (rule ccontr)
    assume neq: "n \<noteq> 1"
    show False
    proof (cases "n < 10")
      case True
      then have "n \<in> {0, 2, 3, 4, 5, 6, 7, 8, 9}"
        using neq by auto
      then have "digits n \<noteq> [49]"
        by (auto simp: digits.simps)
      with eq show False
        by simp
    next
      case False
      then have "digits n = digits (n div 10) @ [of_nat (48 + n mod 10)]"
        by (subst digits.simps) simp
      then have "2 \<le> length (digits n)"
        using digits_nonempty [of "n div 10"]
        by (cases "digits (n div 10)") auto
      with eq show False
        by simp
    qed
  qed
next
  assume "n = 1"
  then show "digits n = [49]"
    by (simp add: digits_1)
qed

lemma digits_eq_49': "[49] = digits n \<longleftrightarrow> n = 1"
  using digits_eq_49 [of n] by auto

lemma getKey_eq_iff: "getKey userId a = getKey userId b \<longleftrightarrow> a = b"
  by (simp add: getKey_def)

lemma generateIdentity_store:
  "snd (generateIdentity e userId rnd st)
     = st(getKey userId (lit ''identity_private'')
            \<mapsto> base64_encode e (sk_serialize (kp_privateKey (rnd_identityKeyPair rnd))),
          getKey userId (lit ''identity_public'')
            \<mapsto> base64_encode e (pk_serialize (kp_publicKey (rnd_identityKeyPair rnd))),
          getKey userId (lit ''registration_id'')
            \<mapsto> number_toString (Num (int (rnd_registrationId rnd) + 1)),
          getKey userId (lit ''signed_prekey_'' @ digits (rnd_signedPreKeyId rnd))
            \<mapsto> base64_encode e
                 (SignedPreKeyRecord_serialize e
                    \<lparr>spkr_id = rnd_signedPreKeyId rnd, spkr_timestamp = rnd_now rnd,
                     spkr_keyPair = rnd_signedPreKeyPair rnd,
                     spkr_signature =
                       private_sign e (kp_privateKey (rnd_identityKeyPair rnd))
                         (pk_serialize (kp_publicKey (rnd_signedPreKeyPair rnd)))\<rparr>),
          getKey userId (lit ''prekey_'' @ digits (rnd_preKeyId rnd))
            \<mapsto> base64_encode e
                 (PreKeyRecord_serialize e
                    \<lparr>pkr_id = rnd_preKeyId rnd, pkr_keyPair = rnd_preKeyPair rnd\<rparr>))"
  by (simp add: generateIdentity_def Let_def saveIdentityKeyPair_def saveRegistrationId_def
      saveSignedPreKey_def savePreKey_def)

lemma generateIdentity_bundle:
  "fst (generateIdentity e userId rnd st)
     = \<lparr>identityKey = base64_encode e (pk_serialize (kp_publicKey (rnd_identityKeyPair rnd))),
        signedPreKey =
          \<lparr>spk_keyId = rnd_signedPreKeyId rnd,
           spk_publicKey = base64_encode e (pk_serialize (kp_publicKey (rnd_signedPreKeyPair rnd))),
           spk_signature =
             base64_encode e
               (private_sign e (kp_privateKey (rnd_identityKeyPair rnd))
                  (pk_serialize (kp_publicKey (rnd_signedPreKeyPair rnd))))\<rparr>,
        preKey =
          \<lparr>opk_keyId = rnd_preKeyId rnd,
           opk_publicKey = base64_encode e (pk_serialize (kp_publicKey (rnd_preKeyPair rnd)))\<rparr>,
        registrationId = Num (int (rnd_registrationId rnd) + 1)\<rparr>"
  by (simp add: generateIdentity_def Let_def)

text \<open>\<open>generateIdentity\<close> writes the signed pre-key under the id it drew; unless that id is
  1, the entry \<open>signed_prekey_1\<close> is as it was.\<close>

lemma signed_prekey_1_not_written:
  assumes "rnd_signedPreKeyId rnd \<noteq> 1"
  shows "snd (generateIdentity e userId rnd st) (getKey userId (lit ''signed_prekey_'' @ digits 1))
           = st (getKey userId (lit ''signed_prekey_'' @ digits 1))"
  using assms
  by (simp add: generateIdentity_store getKey_eq_iff digits_1 digits_eq_49 digits_eq_49' lit_def)

text \<open>\<open>getUserBundle\<close> reads the signed pre-key under the id 1, and returns \<open>null\<close> without it.\<close>

lemma getUserBundle_needs_signed_prekey_1:
  assumes "st (getKey userId (lit ''signed_prekey_'' @ digits 1)) = None"
  shows "getUserBundle e userId st random_draw = None"
  using assms
  by (simp add: getUserBundle_def getSignedPreKey_def truthy_def Let_def digits_1
      split: option.splits)

lemma identity_written:
  "snd (generateIdentity e userId rnd st) (getKey userId (lit ''identity_private''))
     = Some (base64_encode e (sk_serialize (kp_privateKey (rnd_identityKeyPair rnd))))
   \<and> snd (generateIdentity e userId rnd st) (getKey userId (lit ''identity_public''))
     = Some (base64_encode e (pk_serialize (kp_publicKey (rnd_identityKeyPair rnd))))"
  by (simp add: generateIdentity_store getKey_eq_iff lit_def)

lemma getIdentityKeyPair_after_generateIdentity:
  assumes "base64_encode e (sk_serialize (kp_privateKey (rnd_identityKeyPair rnd))) \<noteq> []"
    and "base64_encode e (pk_serialize (kp_publicKey (rnd_identityKeyPair rnd))) \<noteq> []"
    and "PrivateKey_deserialize e
           (base64_decode e (base64_encode e (sk_serialize (kp_privateKey (rnd_identityKeyPair rnd)))))
         = Inr (kp_privateKey (rnd_identityKeyPair rnd))"
    and "PublicKey_deserialize e
           (base64_decode e (base64_encode e (pk_serialize (kp_publicKey (rnd_identityKeyPair rnd)))))
         = Inr (kp_publicKey (rnd_identityKeyPair rnd))"
  shows "getIdentityKeyPair e userId (snd (generateIdentity e userId rnd st))
           = Some (rnd_identityKeyPair rnd)"
  using assms
  by (simp add: getIdentityKeyPair_def identity_written truthy_def Let_def)

section \<open>The two users on the reference platform\<close>

lemma std_base64_encode_nonempty: "bs \<noteq> [] \<Longrightarrow> std_base64_encode bs \<noteq> []"
  by (induction bs rule: std_base64_encode.induct) (simp_all add: Let_def)

lemma key_pair_deserialized:
  "ref_PublicKey_deserialize (pk_serialize (kp_publicKey (key_pair x)))
     = Inr (kp_publicKey (key_pair x))"
  "ref_PrivateKey_deserialize (sk_serialize (kp_privateKey (key_pair x)))
     = Inr (kp_privateKey (key_pair x))"
  by (simp_all add: key_pair_def ref_PublicKey_deserialize_def ref_PrivateKey_deserialize_def)

lemma key_pair_nonempty:
  "pk_serialize (kp_publicKey (key_pair x)) \<noteq> []"
  "sk_serialize (kp_privateKey (key_pair x)) \<noteq> []"
  by (simp_all add: key_pair_def)

text \<open>The keys of the two users come back from base64 as they went in (by evaluation).\<close>

lemma alice_private_key_decoded:
  "std_base64_decode (std_base64_encode (sk_serialize (kp_privateKey (key_pair 0x01))))
     = sk_serialize (kp_privateKey (key_pair 0x01))"
  by code_simp

lemma alice_public_key_decoded:
  "std_base64_decode (std_base64_encode (pk_serialize (kp_publicKey (key_pair 0x01))))
     = pk_serialize (kp_publicKey (key_pair 0x01))"
  by code_simp

lemma bob_private_key_decoded:
  "std_base64_decode (std_base64_encode (sk_serialize (kp_privateKey (key_pair 0x21))))
     = sk_serialize (kp_privateKey (key_pair 0x21))"
  by code_simp

lemma bob_public_key_decoded:
  "std_base64_decode (std_base64_encode (pk_serialize (kp_publicKey (key_pair 0x21))))
     = pk_serialize (kp_publicKey (key_pair 0x21))"
  by code_simp


lemma alice_identity_stored:
  "getIdentityKeyPair ref_env alice alice_store = Some (key_pair 0x01)"
  using getIdentityKeyPair_after_generateIdentity [of ref_env "draws 0x01 5 7" alice Map.empty]
    alice_private_key_decoded alice_public_key_decoded
  by (simp add: alice_store_def ref_env_def draws_def key_pair_deserialized key_pair_nonempty
      std_base64_encode_nonempty)

lemma bob_identity_stored:
  "getIdentityKeyPair ref_env bob bob_store = Some (key_pair 0x21)"
  using getIdentityKeyPair_after_generateIdentity [of ref_env "draws 0x21 5 7" bob Map.empty]
    bob_private_key_decoded bob_public_key_decoded
  by (simp add: bob_store_def ref_env_def draws_def key_pair_deserialized key_pair_nonempty
      std_base64_encode_nonempty)

lemma alice_bundle_absent: "getUserBundle ref_env alice alice_store 0 = None"
proof -
  have "alice_store (getKey alice (lit ''signed_prekey_'' @ digits 1)) = None"
    using signed_prekey_1_not_written [of "draws 0x01 5 7" ref_env alice Map.empty]
    by (simp add: alice_store_def draws_def)
  then show ?thesis
    by (rule getUserBundle_needs_signed_prekey_1)
qed

lemma alice_identityKey_decoded:
  "base64_decode ref_env (identityKey alice_bundle) = pk_serialize (kp_publicKey (key_pair 0x01))"
  using alice_public_key_decoded
  by (simp add: alice_bundle_def generateIdentity_bundle draws_def ref_env_def)

lemma bob_identityKey:
  "identityKey bob_bundle = std_base64_encode (pk_serialize (kp_publicKey (key_pair 0x21)))"
  by (simp add: bob_bundle_def generateIdentity_bundle draws_def ref_env_def)

lemma bob_identityKey_decoded:
  "base64_decode ref_env (identityKey bob_bundle) = pk_serialize (kp_publicKey (key_pair 0x21))"
  using bob_public_key_decoded
  by (simp add: bob_identityKey ref_env_def)




section \<open>The claims about decryption\<close>

text \<open>
  C10. \<open>CryptoService.decryptMessage\<close> never throws: for every library, store and
  arguments it returns a string. An argument that is empty or not a string gives
  \<open>[Empty message]\<close>; a non-empty string that is shorter than 10 code units, holds a
  character outside \<open>A-Z a-z 0-9 + / =\<close> or has a length that is not a multiple of 4 is
  returned unchanged with the store untouched, whatever the library is (nothing is
  decrypted); and when \<open>SignalProtocol.decryptMessage\<close> throws, the string is returned
  unchanged as well.
\<close>

theorem CryptoService_decryptMessage_never_throws:
  "(\<exists>r st'. CryptoService_decryptMessage e userId st m senderId = (Inr r, st'))
   \<and> (m = None \<or> m = Some [] \<longrightarrow>
        CryptoService_decryptMessage e userId st m senderId = (Inr (lit ''[Empty message]''), st))
   \<and> (s \<noteq> [] \<and> (length s < 10 \<or> \<not> list_all is_base64_char s \<or> length s mod 4 \<noteq> 0) \<longrightarrow>
        CryptoService_decryptMessage e userId st (Some s) senderId = (Inr s, st))
   \<and> (looksEncrypted s \<and> decryptMessage e userId st (address_of senderId) s = (Inl err, st1) \<longrightarrow>
        CryptoService_decryptMessage e userId st (Some s) senderId = (Inr s, st1))"
proof (intro conjI impI)
  show "\<exists>r st'. CryptoService_decryptMessage e userId st m senderId = (Inr r, st')"
    by (auto simp: CryptoService_decryptMessage_def Let_def split: option.splits prod.splits sum.splits)
next
  assume "m = None \<or> m = Some []"
  then show "CryptoService_decryptMessage e userId st m senderId = (Inr (lit ''[Empty message]''), st)"
    by (auto simp: CryptoService_decryptMessage_def)
next
  assume "s \<noteq> [] \<and> (length s < 10 \<or> \<not> list_all is_base64_char s \<or> length s mod 4 \<noteq> 0)"
  then have "s \<noteq> []" and "\<not> looksEncrypted s"
    by (auto simp: looksEncrypted_iff)
  then show "CryptoService_decryptMessage e userId st (Some s) senderId = (Inr s, st)"
    by (simp add: CryptoService_decryptMessage_def)
next
  assume h: "looksEncrypted s \<and> decryptMessage e userId st (address_of senderId) s = (Inl err, st1)"
  then have "s \<noteq> []" by (auto simp: looksEncrypted_iff)
  with h show "CryptoService_decryptMessage e userId st (Some s) senderId = (Inr s, st1)"
    by (simp add: CryptoService_decryptMessage_def Let_def)
qed

text \<open>The theorem at three inputs of the reference platform: no string, a short string,
  and a base64-shaped string that the library rejects.\<close>

theorem CryptoService_decryptMessage_never_throws_witness:
  "CryptoService_decryptMessage ref_env bob Map.empty None alice
     = (Inr (lit ''[Empty message]''), Map.empty)
   \<and> lit ''hello'' \<noteq> [] \<and> length (lit ''hello'') < 10
   \<and> CryptoService_decryptMessage ref_env bob Map.empty (Some (lit ''hello'')) alice
     = (Inr (lit ''hello''), Map.empty)
   \<and> looksEncrypted (lit ''AAAAAAAAAAAA'')
   \<and> fst (decryptMessage ref_env bob Map.empty (address_of alice) (lit ''AAAAAAAAAAAA''))
     = Inl (LibraryError (lit ''not a SignalMessage''))
   \<and> fst (CryptoService_decryptMessage ref_env bob Map.empty (Some (lit ''AAAAAAAAAAAA'')) alice)
     = Inr (lit ''AAAAAAAAAAAA'')"
proof -
  have short: "lit ''hello'' \<noteq> [] \<and> length (lit ''hello'') < 10"
    by (simp add: lit_def)
  have rejected:
    "decryptMessage ref_env bob Map.empty (address_of alice) (lit ''AAAAAAAAAAAA'')
       = (Inl (LibraryError (lit ''not a SignalMessage'')),
          snd (decryptMessage ref_env bob Map.empty (address_of alice) (lit ''AAAAAAAAAAAA'')))"
    using garbage_rejected by (simp add: prod_eq_iff)
  note thm1 = CryptoService_decryptMessage_never_throws
    [where e = ref_env and userId = bob and st = Map.empty and m = None and senderId = alice
       and s = "lit ''hello''"]
  note thm2 = CryptoService_decryptMessage_never_throws
    [where e = ref_env and userId = bob and st = Map.empty and m = None and senderId = alice
       and s = "lit ''AAAAAAAAAAAA''" and err = "LibraryError (lit ''not a SignalMessage'')"
       and ?st1.0 = "snd (decryptMessage ref_env bob Map.empty (address_of alice) (lit ''AAAAAAAAAAAA''))"]
  from thm1 short thm2 garbage_looksEncrypted rejected garbage_rejected show ?thesis
    by simp
qed

text \<open>
  C2, as the code has it. When both attempts of \<open>SignalProtocol.decryptMessage\<close> fail (the
  bytes read as a \<open>PreKeySignalMessage\<close>, then as a \<open>SignalMessage\<close>), it throws the error
  of the second attempt to its caller. \<open>CryptoService.decryptMessage\<close>, its caller, catches
  that error and returns the envelope text it was given as if it were the message.
\<close>

theorem decryption_failure_is_caught:
  assumes "try_PreKeySignalMessage e userId st address (base64_decode e s) = (Inl err1, st1)"
    and "try_SignalMessage e userId st1 address (base64_decode e s) = (Inl err2, st2)"
  shows "decryptMessage e userId st address s = (Inl err2, st2)
         \<and> (looksEncrypted s \<and> address = address_of senderId \<longrightarrow>
              CryptoService_decryptMessage e userId st (Some s) senderId = (Inr s, st2))"
  using decryptMessage_both_fail [OF assms] CryptoService_decryptMessage_catches
  by auto

text \<open>The theorem at Bob's device, for Alice's envelope with its last byte changed.\<close>

theorem decryption_failure_is_caught_witness:
  "fst (try_PreKeySignalMessage ref_env bob Map.empty (address_of alice)
         (base64_decode ref_env tampered_envelope))
     = Inl (LibraryError (lit ''bad MAC''))
   \<and> fst (try_SignalMessage ref_env bob
         (snd (try_PreKeySignalMessage ref_env bob Map.empty (address_of alice)
                (base64_decode ref_env tampered_envelope)))
         (address_of alice) (base64_decode ref_env tampered_envelope))
     = Inl (LibraryError (lit ''not a SignalMessage''))
   \<and> looksEncrypted tampered_envelope
   \<and> fst (decryptMessage ref_env bob Map.empty (address_of alice) tampered_envelope)
     = Inl (LibraryError (lit ''not a SignalMessage''))
   \<and> fst (CryptoService_decryptMessage ref_env bob Map.empty (Some tampered_envelope) alice)
     = Inr tampered_envelope"
proof -
  define st1 where
    "st1 = snd (try_PreKeySignalMessage ref_env bob Map.empty (address_of alice)
                 (base64_decode ref_env tampered_envelope))"
  define st2 where
    "st2 = snd (try_SignalMessage ref_env bob st1 (address_of alice)
                 (base64_decode ref_env tampered_envelope))"
  have first:
    "try_PreKeySignalMessage ref_env bob Map.empty (address_of alice)
       (base64_decode ref_env tampered_envelope) = (Inl (LibraryError (lit ''bad MAC'')), st1)"
    using tampered_bad_MAC by (simp add: prod_eq_iff st1_def)
  have second:
    "try_SignalMessage ref_env bob st1 (address_of alice)
       (base64_decode ref_env tampered_envelope)
       = (Inl (LibraryError (lit ''not a SignalMessage'')), st2)"
    using tampered_not_SignalMessage by (simp add: prod_eq_iff st1_def st2_def)
  from decryption_failure_is_caught [OF first second, of alice] tampered_looksEncrypted
    tampered_bad_MAC tampered_not_SignalMessage
  show ?thesis
    by (simp add: st1_def)
qed

text \<open>C2 as stated fails there: the library rejects the changed envelope (its check byte
  is wrong), and \<open>CryptoService.decryptMessage\<close> returns the envelope text, not an error.\<close>

theorem decryption_failure_returns_the_ciphertext:
  "fst (try_PreKeySignalMessage ref_env bob Map.empty (address_of alice)
         (base64_decode ref_env tampered_envelope))
     = Inl (LibraryError (lit ''bad MAC''))
   \<and> fst (CryptoService_decryptMessage ref_env bob Map.empty (Some tampered_envelope) alice)
     = Inr tampered_envelope"
  using tampered_bad_MAC tampered_returned by simp

section \<open>The claim about sending\<close>

text \<open>
  C3, as the code has it. When \<open>CryptoService.encryptMessage\<close> throws, \<open>sendMessage\<close> hands
  the trimmed input text itself to the insert into \<open>messages\<close>, in the \<open>ciphertext\<close> field
  of a row of type \<open>whisper\<close>. The row and the screen are those of a send with no crypto
  service at all; when the insert succeeds, no error is set and the message is listed
  like any other.
\<close>

theorem sendMessage_sends_plaintext_when_encryption_fails:
  assumes "trim (inputText c) \<noteq> []" and "user = Some u" and "truthy recipientId"
    and "\<not> sending c" and "cryptoService = Some serviceUser"
    and "fst (CryptoService_encryptMessage e serviceUser db st (the recipientId)
               (trim (inputText c))) = Inl encryptError"
    and "r = sendMessage e db insert_row now user recipientId cryptoService duration st c"
  shows "map_option ciphertext (inserted r) = Some (trim (inputText c))
         \<and> map_option message_type (inserted r) = Some (lit ''whisper'')
         \<and> inserted r = inserted (sendMessage e db insert_row now user recipientId None duration st c)
         \<and> screen r = screen (sendMessage e db insert_row now user recipientId None duration st c)
         \<and> (\<forall>row. insert_row (the (inserted r)) = Inr row \<longrightarrow>
               error (screen r) = None
               \<and> messages (screen r)
                   = messages c
                     @ [\<lparr>item_row = row, decryptedText = trim (inputText c), isOutgoing = True\<rparr>])"
proof -
  define st' where
    "st' = snd (CryptoService_encryptMessage e serviceUser db st (the recipientId)
                  (trim (inputText c)))"
  have enc:
    "CryptoService_encryptMessage e serviceUser db st (the recipientId) (trim (inputText c))
       = (Inl encryptError, st')"
    using assms(6) by (simp add: prod_eq_iff st'_def)
  show ?thesis
    unfolding assms(7) using assms(1-5) enc
    by (simp add: sendMessage_def Let_def split: sum.splits)
qed

text \<open>The theorem for Alice writing to Bob, who has published no profile.\<close>

theorem sendMessage_sends_plaintext_when_encryption_fails_witness:
  "trim (inputText draft) \<noteq> [] \<and> truthy (Some bob) \<and> \<not> sending draft
   \<and> fst (CryptoService_encryptMessage ref_env alice Map.empty Map.empty bob
            (trim (inputText draft)))
       = Inl (Error (lit ''Recipient public key not found''))
   \<and> map_option ciphertext
        (inserted (sendMessage ref_env Map.empty stored_row 1700000000000 (Some alice) (Some bob)
           (Some alice) 0 Map.empty draft))
       = Some (trim (inputText draft))"
proof -
  have g1: "trim (inputText draft) \<noteq> []"
    by code_simp
  have g2: "truthy (Some bob)"
    by code_simp
  have g3: "\<not> sending draft"
    by code_simp
  have fails:
    "fst (CryptoService_encryptMessage ref_env alice Map.empty Map.empty bob
           (trim (inputText draft)))
       = Inl (Error (lit ''Recipient public key not found''))"
    using no_profile_no_encryption by (simp add: draft_trimmed)
  then have fails':
    "fst (CryptoService_encryptMessage ref_env alice Map.empty Map.empty (the (Some bob))
           (trim (inputText draft)))
       = Inl (Error (lit ''Recipient public key not found''))"
    by simp
  have sent:
    "map_option ciphertext
        (inserted (sendMessage ref_env Map.empty stored_row 1700000000000 (Some alice) (Some bob)
           (Some alice) 0 Map.empty draft))
       = Some (trim (inputText draft))"
    by (rule conjunct1
         [OF sendMessage_sends_plaintext_when_encryption_fails [OF g1 refl g2 g3 refl fails' refl]])
  show ?thesis
    by (intro conjI g1 g2 g3 fails sent)
qed

text \<open>C3 as stated fails there: encryption fails, the text goes out in the clear, and
  the screen shows no error.\<close>

theorem sendMessage_plaintext_counterexample:
  "fst (CryptoService_encryptMessage ref_env alice Map.empty Map.empty bob (lit ''meet at nine''))
     = Inl (Error (lit ''Recipient public key not found''))
   \<and> map_option ciphertext
        (inserted (sendMessage ref_env Map.empty stored_row 1700000000000 (Some alice) (Some bob)
           (Some alice) 0 Map.empty draft))
       = Some (lit ''meet at nine'')
   \<and> error (screen (sendMessage ref_env Map.empty stored_row 1700000000000 (Some alice) (Some bob)
        (Some alice) 0 Map.empty draft))
       = None"
  using no_profile_no_encryption draft_sent_in_the_clear draft_no_error by simp

section \<open>The claim about trust\<close>

text \<open>
  C7, as the code has it. \<open>isTrustedIdentity\<close> reports every identity key as trusted,
  whatever key is stored for the peer, and \<open>saveIdentity\<close> replaces the stored key by the
  one it is given.
\<close>

theorem isTrustedIdentity_trusts_every_key:
  "isTrustedIdentity userId st address presented
   \<and> snd (saveIdentity e userId address presented st)
       = st(getKey userId (lit ''identity_'' @ addr_name address)
              \<mapsto> base64_encode e (pk_serialize presented))"
  by (simp add: isTrustedIdentity_def saveIdentity_def)

text \<open>C7 as stated fails at Bob's device: with one identity key stored for Alice, a
  different key presented for her is reported as trusted.\<close>

theorem changed_identity_key_is_trusted:
  "getIdentity ref_env bob
     (snd (saveIdentity ref_env bob (address_of alice) (kp_publicKey (key_pair 1)) Map.empty))
     (address_of alice)
     = Some (kp_publicKey (key_pair 1))
   \<and> kp_publicKey (key_pair 9) \<noteq> kp_publicKey (key_pair 1)
   \<and> isTrustedIdentity bob
       (snd (saveIdentity ref_env bob (address_of alice) (kp_publicKey (key_pair 1)) Map.empty))
       (address_of alice) (kp_publicKey (key_pair 9))"
  using stored_key_read_back keys_differ by (simp add: isTrustedIdentity_def)


section \<open>The claim about pre-key exhaustion\<close>




section \<open>The claim about the local bundle\<close>

text \<open>
  C9 at a store where the code departs from it. \<open>generateIdentity\<close> stores the signed
  pre-key and the one-time pre-key under the ids it drew, here 5 and 7; \<open>getUserBundle\<close>
  reads both under the id 1. In the store that \<open>generateIdentity\<close> leaves, the identity
  exists and \<open>getUserBundle\<close> returns \<open>null\<close>.
\<close>

theorem getUserBundle_absent_after_generateIdentity:
  "rnd_signedPreKeyId (draws 0x01 5 7) = 5 \<and> rnd_preKeyId (draws 0x01 5 7) = 7
   \<and> alice_store = snd (generateIdentity ref_env alice (draws 0x01 5 7) Map.empty)
   \<and> getIdentityKeyPair ref_env alice alice_store = Some (key_pair 0x01)
   \<and> getUserBundle ref_env alice alice_store 0 = None"
  using alice_identity_stored alice_bundle_absent
  by (simp add: alice_store_def draws_def)

text \<open>In short: the identity is there, the bundle is not.\<close>

theorem getUserBundle_absent_after_generateIdentity_witness:
  "getIdentityKeyPair ref_env alice alice_store \<noteq> None
   \<and> getUserBundle ref_env alice alice_store 0 = None"
  using getUserBundle_absent_after_generateIdentity by simp

section \<open>The claim about the safety number\<close>

text \<open>
  C6 on the code: \<open>getSafetyNumber\<close> hashes the own identity key followed by the other
  user's key, and nothing puts the two keys in an order that both devices share. For two
  users A and B, A's device shows the groups of the hash of A's key followed by B's, and
  B's device those of the hash of B's key followed by A's.
\<close>

theorem getSafetyNumber_hashes_own_key_first:
  assumes "getIdentityKeyPair e userA stA = Some kpA"
    and "getIdentityKeyPair e userB stB = Some kpB"
    and "base64_decode e (identityKey bundleA) = pk_serialize (kp_publicKey kpA)"
    and "base64_decode e (identityKey bundleB) = pk_serialize (kp_publicKey kpB)"
  shows "getSafetyNumber e userA stA bundleB
           = format_groups
               (sha256_hex e (pk_serialize (kp_publicKey kpA) @ pk_serialize (kp_publicKey kpB)))
         \<and> getSafetyNumber e userB stB bundleA
           = format_groups
               (sha256_hex e (pk_serialize (kp_publicKey kpB) @ pk_serialize (kp_publicKey kpA)))"
  using assms by (simp add: getSafetyNumber_def Let_def)

text \<open>The theorem for Alice and Bob after each has run \<open>generateIdentity\<close>.\<close>

theorem getSafetyNumber_hashes_own_key_first_witness:
  "getIdentityKeyPair ref_env alice alice_store = Some (key_pair 0x01)
   \<and> getIdentityKeyPair ref_env bob bob_store = Some (key_pair 0x21)
   \<and> base64_decode ref_env (identityKey alice_bundle) = pk_serialize (kp_publicKey (key_pair 0x01))
   \<and> base64_decode ref_env (identityKey bob_bundle) = pk_serialize (kp_publicKey (key_pair 0x21))
   \<and> getSafetyNumber ref_env alice alice_store bob_bundle
       = format_groups
           (sha256_hex ref_env
              (pk_serialize (kp_publicKey (key_pair 0x01))
               @ pk_serialize (kp_publicKey (key_pair 0x21))))
   \<and> getSafetyNumber ref_env bob bob_store alice_bundle
       = format_groups
           (sha256_hex ref_env
              (pk_serialize (kp_publicKey (key_pair 0x21))
               @ pk_serialize (kp_publicKey (key_pair 0x01))))"
proof -
  note both = getSafetyNumber_hashes_own_key_first
    [OF alice_identity_stored bob_identity_stored alice_identityKey_decoded
        bob_identityKey_decoded]
  show ?thesis
    by (intro conjI alice_identity_stored bob_identity_stored alice_identityKey_decoded
        bob_identityKey_decoded conjunct1 [OF both] conjunct2 [OF both])
qed

end
